theory Spec2Isabelle
  imports Complex_Main "HOL-Library.Word" "HOL-Library.Multiset" "HOL-Library.Char_ord"
    "HOL-Library.List_Lexorder" "HOL-Library.Product_Lexorder"
begin

section \<open>Python values used by the pipelines\<close>

text \<open>
  The three modules of \<^verbatim>\<open>ews_gis_assets\<close> are embedded function by function.
  Text is a \<^typ>\<open>string\<close> whose characters are the code points below 256 (all column
  names and literals of the sources are in that range); a null cell (\<^verbatim>\<open>None\<close>,
  \<^verbatim>\<open>NaN\<close>, \<^verbatim>\<open>NaT\<close>) is \<^term>\<open>None\<close>; binary floating point numbers are
  idealised as rationals; every \<^verbatim>\<open>raise\<close> of the code and of the library calls it
  makes is an \<^term>\<open>Inl\<close> result.
\<close>

datatype py_error =
    KeyError string
  | IndexError
  | TypeError
  | ValueError string
  | AttributeError
  | AssertionError
  | RuntimeError string
  | ParseError
  | RequestException
  | BadZipFile

type_synonym 'a result = "py_error + 'a"

definition bind_result :: "'a result \<Rightarrow> ('a \<Rightarrow> 'b result) \<Rightarrow> 'b result" where
  "bind_result r f = (case r of Inl e \<Rightarrow> Inl e | Inr v \<Rightarrow> f v)"

text \<open>A comprehension or column-wise \<^verbatim>\<open>apply\<close> whose body may raise: the first raise wins.\<close>

fun map_result :: "('a \<Rightarrow> 'b result) \<Rightarrow> 'a list \<Rightarrow> 'b list result" where
  "map_result f [] = Inr []"
| "map_result f (x # xs) =
     (case f x of
        Inl e \<Rightarrow> Inl e
      | Inr y \<Rightarrow> (case map_result f xs of Inl e \<Rightarrow> Inl e | Inr ys \<Rightarrow> Inr (y # ys)))"

subsection \<open>\<^verbatim>\<open>str\<close> methods\<close>

text \<open>\<^verbatim>\<open>str.isspace\<close> on one code point below 256.\<close>

definition isspace :: "char \<Rightarrow> bool" where
  "isspace c = (let n = (of_char c :: nat) in
     (9 \<le> n \<and> n \<le> 13) \<or> (28 \<le> n \<and> n \<le> 32) \<or> n = 133 \<or> n = 160)"

definition lstrip :: "string \<Rightarrow> string" where
  "lstrip s = dropWhile isspace s"

definition rstrip :: "string \<Rightarrow> string" where
  "rstrip s = rev (dropWhile isspace (rev s))"

definition strip :: "string \<Rightarrow> string" where
  "strip s = rstrip (lstrip s)"

definition startswith :: "string \<Rightarrow> string \<Rightarrow> bool" where
  "startswith s p = (take (length p) s = p)"

definition endswith :: "string \<Rightarrow> string \<Rightarrow> bool" where
  "endswith s p = (length p \<le> length s \<and> drop (length s - length p) s = p)"

text \<open>
  \<^verbatim>\<open>s.split(sep, maxsplit)\<close> for a non-empty separator: the pieces between the
  non-overlapping occurrences of \<^verbatim>\<open>sep\<close>, scanned from the left, cutting at most
  \<^verbatim>\<open>maxsplit\<close> times (\<^term>\<open>None\<close>: no limit). \<^term>\<open>acc\<close> holds the current
  piece, reversed.
\<close>

function split_from :: "string \<Rightarrow> nat option \<Rightarrow> string \<Rightarrow> string \<Rightarrow> string list" where
  "split_from sep k acc [] = [rev acc]"
| "split_from sep k acc (c # cs) =
     (if sep \<noteq> [] \<and> k \<noteq> Some 0 \<and> startswith (c # cs) sep
      then rev acc # split_from sep (map_option (\<lambda>n. n - 1) k) [] (drop (length sep) (c # cs))
      else split_from sep k (c # acc) cs)"
  by pat_completeness auto
termination
  by (relation "measure (\<lambda>(sep, k, acc, s). length s)") auto

definition split :: "string \<Rightarrow> string \<Rightarrow> string list" where
  "split s sep = split_from sep None [] s"

definition split_max :: "string \<Rightarrow> string \<Rightarrow> nat \<Rightarrow> string list" where
  "split_max s sep maxsplit = split_from sep (Some maxsplit) [] s"

text \<open>\<^verbatim>\<open>sep.join(parts)\<close>.\<close>

fun join :: "string \<Rightarrow> string list \<Rightarrow> string" where
  "join sep [] = []"
| "join sep [p] = p"
| "join sep (p # q # ps) = p @ sep @ join sep (q # ps)"

text \<open>\<^verbatim>\<open>s.replace(old, new)\<close> for a non-empty \<^verbatim>\<open>old\<close>.\<close>

definition replace :: "string \<Rightarrow> string \<Rightarrow> string \<Rightarrow> string" where
  "replace s old new = join new (split s old)"

text \<open>\<^verbatim>\<open>str(n)\<close> of a non-negative integer: its decimal digits.\<close>

definition digit_char :: "nat \<Rightarrow> char" where
  "digit_char d = char_of (48 + d)"

fun str_nat :: "nat \<Rightarrow> string" where
  "str_nat n = (if n < 10 then [digit_char n] else str_nat (n div 10) @ [digit_char (n mod 10)])"

declare str_nat.simps [simp del]

section \<open>\<^verbatim>\<open>helpers.py\<close>: the content hash and the change gate\<close>

text \<open>
  \<^verbatim>\<open>pd.util.hash_pandas_object(gdf, index=True)\<close> returns one unsigned 64-bit hash per
  row, computed from the row's index label and its cells. The library's row hash is the
  parameter \<^term>\<open>h\<close>; a frame is the list of its rows, each with its index label.
  \<^verbatim>\<open>.sum()\<close> adds the hashes in \<^verbatim>\<open>uint64\<close>, wrapping, and \<^verbatim>\<open>str\<close> prints the sum
  in decimal.
\<close>

type_synonym 'r frame = "(int \<times> 'r) list"

definition hash_pandas_object :: "(int \<times> 'r \<Rightarrow> 64 word) \<Rightarrow> 'r frame \<Rightarrow> 64 word list" where
  "hash_pandas_object h gdf = map h gdf"

definition calculate_gdf_hash :: "(int \<times> 'r \<Rightarrow> 64 word) \<Rightarrow> 'r frame \<Rightarrow> string" where
  "calculate_gdf_hash h gdf = str_nat (unat (sum_list (hash_pandas_object h gdf)))"

text \<open>
  The file system seen by \<^verbatim>\<open>is_data_updated\<close>: the text of each existing file, by path.
  The function returns its boolean and the file system it leaves behind.
\<close>

type_synonym files = "string \<rightharpoonup> string"

definition is_data_updated ::
  "(int \<times> 'r \<Rightarrow> 64 word) \<Rightarrow> 'r frame \<Rightarrow> string \<Rightarrow> files \<Rightarrow> bool \<times> files" where
  "is_data_updated h gdf hash_file fs =
     (let new_hash = calculate_gdf_hash h gdf in
      case fs hash_file of
        Some content \<Rightarrow>
          (let last_hash = strip content in
           if new_hash = last_hash then (False, fs)
           else (True, fs(hash_file \<mapsto> new_hash)))
      | None \<Rightarrow> (True, fs(hash_file \<mapsto> new_hash)))"

section \<open>What the code obtains from its libraries and from the network\<close>

text \<open>
  The parsers and decoders of the Python runtime and of pandas, and the answers of the
  network, are parameters of the model, collected in one record. A field returns
  \<^term>\<open>None\<close> where the call raises.
\<close>

type_synonym point = "rat \<times> rat"

type_synonym date = "nat \<times> nat \<times> nat"

datatype xml = Element (tag: string) (attrib: "(string \<times> string) list")
  (text_of: "string option") (children: "xml list")

record response =
  status_code :: nat
  content :: string

record feature =
  properties :: "(string \<times> string option) list"
  shape :: point

datatype json = NotADict | Dict "feature list option"

record env =
  requests_get :: "string \<Rightarrow> response option"
  download_liste :: "string \<Rightarrow> string option list option"
  zip_members :: "string \<Rightarrow> (string \<times> string option) list option"
  fromstring :: "string \<Rightarrow> xml option"
  resp_json :: "string \<Rightarrow> json option"
  py_int :: "string \<Rightarrow> int option"
  py_float :: "string \<Rightarrow> rat option"
  to_numeric :: "string \<Rightarrow> rat option option"
  to_datetime :: "string \<Rightarrow> date option"

text \<open>
  \<^item> \<^term>\<open>requests_get\<close>: \<^verbatim>\<open>requests.get(url)\<close>; \<^term>\<open>None\<close> is a \<^verbatim>\<open>RequestException\<close>.
  \<^item> \<^term>\<open>download_liste\<close>: the \<^verbatim>\<open>href\<close> of every anchor in the table of class
    \<^verbatim>\<open>download_liste\<close> of a page (\<^term>\<open>None\<close> for an anchor without one); \<^term>\<open>None\<close>
    when the page has no such table.
  \<^item> \<^term>\<open>zip_members\<close>: \<^verbatim>\<open>zipfile.ZipFile\<close> on the bytes: each member's name with what
    \<^verbatim>\<open>read\<close> returns for it (\<^term>\<open>None\<close> where \<^verbatim>\<open>read\<close> raises); \<^term>\<open>None\<close> is
    \<^verbatim>\<open>BadZipFile\<close>.
  \<^item> \<^term>\<open>fromstring\<close>: \<^verbatim>\<open>ET.fromstring\<close>; \<^term>\<open>None\<close> is a \<^verbatim>\<open>ParseError\<close>.
  \<^item> \<^term>\<open>resp_json\<close>: \<^verbatim>\<open>resp.json()\<close>, as far as the code looks into it.
  \<^item> \<^term>\<open>py_int\<close>, \<^term>\<open>py_float\<close>: \<^verbatim>\<open>int(s)\<close> and \<^verbatim>\<open>float(s)\<close>.
  \<^item> \<^term>\<open>to_numeric\<close>: \<^verbatim>\<open>pd.to_numeric\<close> on one text value; \<^term>\<open>None\<close> where it
    cannot parse the text, \<^term>\<open>Some None\<close> where it parses it to \<^verbatim>\<open>NaN\<close>.
  \<^item> \<^term>\<open>to_datetime\<close>: \<^verbatim>\<open>pd.to_datetime\<close> on one text value with the format
    \<^verbatim>\<open>%d.%m.%Y\<close>, as (year, month, day).
\<close>

text \<open>\<^verbatim>\<open>round(decimals)\<close> of numpy: to the nearest multiple, ties to the even one.\<close>

definition rint :: "rat \<Rightarrow> int" where
  "rint q = (let f = \<lfloor>q\<rfloor>; d = q - of_int f in
     if d < 1 / 2 then f else if 1 / 2 < d then f + 1 else if even f then f else f + 1)"

definition round_dec :: "nat \<Rightarrow> rat \<Rightarrow> rat" where
  "round_dec decimals q = of_int (rint (q * 10 ^ decimals)) / 10 ^ decimals"

section \<open>\<^verbatim>\<open>austro_control.py\<close>: the obstacle dataset\<close>

subsection \<open>ElementTree queries\<close>

fun iter :: "string \<Rightarrow> xml \<Rightarrow> xml list" where
  "iter t (Element n a x cs) =
     (if n = t then [Element n a x cs] else []) @ concat (map (iter t) cs)"

text \<open>\<^verbatim>\<open>el.findall(".//t")\<close> and \<^verbatim>\<open>el.find(".//t")\<close>: the descendants, \<^verbatim>\<open>el\<close> excluded.\<close>

definition findall :: "xml \<Rightarrow> string \<Rightarrow> xml list" where
  "findall el t = concat (map (iter t) (children el))"

definition find :: "xml \<Rightarrow> string \<Rightarrow> xml option" where
  "find el t = (case findall el t of [] \<Rightarrow> None | x # _ \<Rightarrow> Some x)"

text \<open>\<^verbatim>\<open>el.find(".//t").text\<close>: an attribute read on \<^verbatim>\<open>None\<close> raises.\<close>

definition find_text :: "xml \<Rightarrow> string \<Rightarrow> string option result" where
  "find_text el t = (case find el t of None \<Rightarrow> Inl AttributeError | Some x \<Rightarrow> Inr (text_of x))"

text \<open>A method call on a text that may be \<^verbatim>\<open>None\<close>.\<close>

definition on_str :: "string option \<Rightarrow> (string \<Rightarrow> 'a) \<Rightarrow> 'a result" where
  "on_str s f = (case s of None \<Rightarrow> Inl AttributeError | Some v \<Rightarrow> Inr (f v))"

definition aixm :: "string \<Rightarrow> string" where
  "aixm n = ''{http://www.aixm.aero/schema/5.1.1}'' @ n"

definition gml :: "string \<Rightarrow> string" where
  "gml n = ''{http://www.opengis.net/gml/3.2}'' @ n"

subsection \<open>\<^verbatim>\<open>get_austro_control_links\<close>\<close>

text \<open>Python's \<^verbatim>\<open>xs[i]\<close>, negative indices counting from the end.\<close>

definition getitem :: "'a list \<Rightarrow> int \<Rightarrow> 'a result" where
  "getitem xs i =
     (if 0 \<le> i \<and> i < int (length xs) then Inr (xs ! nat i)
      else if i < 0 \<and> - int (length xs) \<le> i then Inr (xs ! nat (int (length xs) + i))
      else Inl IndexError)"

definition catalog_url :: string where
  "catalog_url =
     ''https://www.austrocontrol.at/piloten/vor_dem_flug/aim_produkte/hindernisdatensaetze_icao''"

definition base_url :: string where
  "base_url = ''https://www.austrocontrol.at/jart/prj3/ac/''"

definition link_label :: "string \<Rightarrow> (string \<times> string) result" where
  "link_label k =
     bind_result (getitem (split_max k ''LO_OBS_DS_AREA1_'' 1) 1) (\<lambda>rest.
     bind_result (getitem (split rest ''_'') 0) (\<lambda>label. Inr (label, k)))"

definition get_austro_control_links :: "env \<Rightarrow> (string \<times> string) list result" where
  "get_austro_control_links E =
     (case requests_get E catalog_url of
        None \<Rightarrow> Inl RequestException
      | Some resp \<Rightarrow>
          if status_code resp \<noteq> 200 then Inl AssertionError
          else (case download_liste E (content resp) of
                  None \<Rightarrow> Inl AttributeError
                | Some anchors \<Rightarrow>
                    bind_result
                      (map_result (\<lambda>a. case a of None \<Rightarrow> Inl (KeyError ''href'')
                                              | Some href \<Rightarrow> Inr (base_url @ href)) anchors)
                      (\<lambda>links. bind_result (map_result link_label links)
                      (\<lambda>links. Inr (rev (sort_key fst links))))))"

subsection \<open>\<^verbatim>\<open>clean_name\<close>\<close>

definition clean_name :: "string \<Rightarrow> string" where
  "clean_name s =
     (if startswith s ''Windpark '' then strip (replace s ''Windpark '' [])
      else if startswith s ''WP '' then strip (replace s ''WP '' [])
      else if startswith s ''WKA '' then strip (replace s ''WKA '' [])
      else if startswith s ''Windturbine '' then strip (replace s ''Windturbine '' [])
      else if startswith s ''Windkraftanlage'' then strip (replace s ''Windkraftanlage '' [])
      else strip s)"

subsection \<open>\<^verbatim>\<open>parse_icao\<close>\<close>

text \<open>The dictionary appended to \<^verbatim>\<open>wtgs\<close> for one \<^verbatim>\<open>VerticalStructurePart\<close>.\<close>

record wtg =
  raw_WindFarm :: string
  raw_WPID :: "string option"
  raw_Name :: string
  raw_VerticalExtent :: "string option"
  raw_VerticalAccuracy :: "string option"
  raw_HorizontalAccuracy :: "string option"
  raw_geometry :: "string list"
  raw_Status :: string
  raw_Elevation :: "string option"
  raw_Type :: "string option"

text \<open>A row of the returned frame, with the columns of the final selection.\<close>

record obstacle =
  Name :: string
  WPID :: "string option"
  WindFarm :: string
  HorizontalAccuracy :: "rat option"
  TerrainElevation :: "rat option"
  Elevation :: "rat option"
  VerticalExtent :: "rat option"
  VerticalAccuracy :: "rat option"
  Type :: "string option"
  Status :: string
  geometry :: point
  Longitude :: rat
  Latitude :: rat
  UID :: int

text \<open>
  A \<^verbatim>\<open>GeoDataFrame\<close>: its rows in order (the index is the dense range of positions
  wherever the code hashes or returns one) and the EPSG code of its reference system.
\<close>

record 'r geodataframe =
  columns :: "string list"
  rows :: "'r list"
  crs :: nat

definition valid_types :: "string list" where
  "valid_types = [''WINDMILL_FARMS'', ''WINDMILL'']"

definition wtg_dict :: "string \<Rightarrow> string option \<Rightarrow> string \<Rightarrow> xml \<Rightarrow> wtg result" where
  "wtg_dict wp_name2 wp_name status w =
     bind_result (case map_of (rev (attrib w)) (gml ''id'') of
                    None \<Rightarrow> Inl (KeyError (gml ''id'')) | Some v \<Rightarrow> Inr v) (\<lambda>name.
     bind_result (find_text w (aixm ''verticalExtent'')) (\<lambda>ve.
     bind_result (find_text w (aixm ''verticalExtentAccuracy'')) (\<lambda>va.
     bind_result (find_text w (aixm ''horizontalAccuracy'')) (\<lambda>ha.
     bind_result (bind_result (find_text w (gml ''pos'')) (\<lambda>p. on_str p (\<lambda>s. split s '' '')))
       (\<lambda>pos.
     bind_result (find_text w (aixm ''elevation'')) (\<lambda>el.
     bind_result (find_text w (aixm ''type'')) (\<lambda>ty.
     Inr \<lparr>raw_WindFarm = wp_name2, raw_WPID = wp_name, raw_Name = name,
          raw_VerticalExtent = ve, raw_VerticalAccuracy = va, raw_HorizontalAccuracy = ha,
          raw_geometry = pos, raw_Status = status, raw_Elevation = el,
          raw_Type = ty\<rparr>)))))))"

text \<open>The body of the loop over the \<^verbatim>\<open>VerticalStructure\<close> elements.\<close>

definition vertical_structure :: "xml \<Rightarrow> wtg list result" where
  "vertical_structure part =
     bind_result (find_text part (aixm ''type'')) (\<lambda>p_type.
     if \<not> (case p_type of None \<Rightarrow> False | Some t \<Rightarrow> t \<in> set valid_types) then Inr []
     else
       bind_result
         (bind_result (find_text part (aixm ''constructionStatus'')) (\<lambda>t. on_str t strip))
         (\<lambda>status.
       bind_result (find_text part (aixm ''name'')) (\<lambda>wp_name.
       bind_result
         (case find part (aixm ''Note'') of
            None \<Rightarrow> Inl AttributeError
          | Some n \<Rightarrow> bind_result (find_text n (aixm ''note'')) (\<lambda>t. on_str t clean_name))
         (\<lambda>wp_name2.
       map_result (wtg_dict wp_name2 wp_name status)
         (findall part (aixm ''VerticalStructurePart''))))))"

definition collect_wtgs :: "xml \<Rightarrow> wtg list result" where
  "collect_wtgs tree =
     bind_result (map_result vertical_structure (iter (aixm ''VerticalStructure'') tree))
       (\<lambda>per_structure. Inr (concat per_structure))"

text \<open>
  \<^verbatim>\<open>df["Name"].str.split("_", expand=True).iloc[:, 1].astype("int")\<close>. A frame built from
  no record has no column at all; the expanded frame has as many columns as the longest
  split, shorter rows padded with \<^verbatim>\<open>None\<close>.
\<close>

definition name_uid :: "env \<Rightarrow> string \<Rightarrow> int result" where
  "name_uid E name =
     (let p = split name ''_'' in
      if length p < 2 then Inl TypeError
      else (case py_int E (p ! 1) of
              None \<Rightarrow> Inl (ValueError ''invalid literal for int()'')
            | Some n \<Rightarrow> Inr n))"

definition derive_uids :: "env \<Rightarrow> wtg list \<Rightarrow> int list result" where
  "derive_uids E wtgs =
     (if wtgs = [] then Inl (KeyError ''Name'')
      else if list_all (\<lambda>w. length (split (raw_Name w) ''_'') < 2) wtgs then Inl IndexError
      else map_result (\<lambda>w. name_uid E (raw_Name w)) wtgs)"

text \<open>\<^verbatim>\<open>pd.to_numeric(v, errors="coerce")\<close> on one cell.\<close>

definition to_numeric_coerce :: "env \<Rightarrow> string option \<Rightarrow> rat option" where
  "to_numeric_coerce E v =
     (case v of None \<Rightarrow> None
      | Some s \<Rightarrow> (case to_numeric E s of None \<Rightarrow> None | Some n \<Rightarrow> n))"

definition as_float :: "env \<Rightarrow> string \<Rightarrow> rat result" where
  "as_float E s =
     (case py_float E s of
        None \<Rightarrow> Inl (ValueError ''could not convert string to float'') | Some x \<Rightarrow> Inr x)"

definition points_from_xy :: "env \<Rightarrow> string list \<Rightarrow> string list \<Rightarrow> point list result" where
  "points_from_xy E x y =
     bind_result (map_result (as_float E) x) (\<lambda>xs.
     bind_result (map_result (as_float E) y) (\<lambda>ys. Inr (zip xs ys)))"

definition rd :: "(string \<times> string) list" where
  "rd =
    [(''COMPLETED'', ''Operating''),
     (''IN_CONSTRUCTION'', ''UnderConstruction''),
     (''MODIFICATION_APPRVD'', ''ModificationApproved''),
     (''DEMOLITION_PLANNED'', ''DemolitionPlanned''),
     (''CONSTRUCTION_PLANNED'', ''Plan''),
     (''CONSTRUCTION_APPRVD'', ''Approved''),
     (''OTHER:IN_CONSTRUCTION'', ''UnderConstruction''),
     (''OTHER:MODIFICATION_APPRVD'', ''ModificationApproved''),
     (''OTHER:DEMOLITION_PLANNED'', ''DemolitionPlanned''),
     (''OTHER:CONSTRUCTION_PLANNED'', ''Plan''),
     (''OTHER:MODIFICATION_PLANNED'', ''ModificationPlanned''),
     (''OTHER:CONSTRUCTION_APPRVD'', ''Approved'')]"

definition rd_get :: "string \<Rightarrow> string" where
  "rd_get s = (case map_of rd s of None \<Rightarrow> s | Some v \<Rightarrow> v)"

definition sub_opt :: "rat option \<Rightarrow> rat option \<Rightarrow> rat option" where
  "sub_opt a b = (case (a, b) of (Some x, Some y) \<Rightarrow> Some (x - y) | _ \<Rightarrow> None)"

definition obstacle_row :: "env \<Rightarrow> wtg \<Rightarrow> int \<Rightarrow> point \<Rightarrow> obstacle" where
  "obstacle_row E w uid pt =
     (let ha = to_numeric_coerce E (raw_HorizontalAccuracy w);
          el = to_numeric_coerce E (raw_Elevation w);
          ve = to_numeric_coerce E (raw_VerticalExtent w);
          va = to_numeric_coerce E (raw_VerticalAccuracy w)
      in \<lparr>Name = raw_Name w, WPID = raw_WPID w, WindFarm = raw_WindFarm w,
           HorizontalAccuracy = ha,
           TerrainElevation = map_option (round_dec 1) (sub_opt el ve),
           Elevation = el, VerticalExtent = ve, VerticalAccuracy = va,
           Type = raw_Type w, Status = rd_get (raw_Status w),
           geometry = pt, Longitude = fst pt, Latitude = snd pt, UID = uid\<rparr>)"

text \<open>Everything \<^verbatim>\<open>parse_icao\<close> does after \<^verbatim>\<open>ET.fromstring\<close>.\<close>

definition parse_icao_root :: "env \<Rightarrow> xml \<Rightarrow> obstacle geodataframe result" where
  "parse_icao_root E tree =
     bind_result (collect_wtgs tree) (\<lambda>wtgs.
     bind_result (derive_uids E wtgs) (\<lambda>uids.
     bind_result (map_result (\<lambda>w. getitem (raw_geometry w) 1) wtgs) (\<lambda>x.
     bind_result (map_result (\<lambda>w. getitem (raw_geometry w) 0) wtgs) (\<lambda>y.
     bind_result (points_from_xy E x y) (\<lambda>pts.
     if \<not> distinct uids then Inl AssertionError
     else Inr \<lparr>columns = [''Name'', ''WPID'', ''WindFarm'', ''HorizontalAccuracy'',
                 ''TerrainElevation'', ''Elevation'', ''VerticalExtent'', ''VerticalAccuracy'',
                 ''Type'', ''Status'', ''geometry'', ''Longitude'', ''Latitude'', ''UID''],
               rows = map (\<lambda>(w, uid, pt). obstacle_row E w uid pt) (zip wtgs (zip uids pts)),
               crs = 4326\<rparr>)))))"

text \<open>\<^verbatim>\<open>data\<close> is \<^term>\<open>None\<close> where the caller passes \<^verbatim>\<open>None\<close>.\<close>

definition parse_icao :: "env \<Rightarrow> string option \<Rightarrow> obstacle geodataframe result" where
  "parse_icao E data =
     (case data of
        None \<Rightarrow> Inl TypeError
      | Some d \<Rightarrow> (case fromstring E d of None \<Rightarrow> Inl ParseError
                                        | Some tree \<Rightarrow> parse_icao_root E tree))"

subsection \<open>\<^verbatim>\<open>get_austro_control_data\<close>\<close>

definition expected_name :: "string \<Rightarrow> string result" where
  "expected_name url =
     bind_result (getitem (split url ''/'') (- 1)) (\<lambda>last.
     bind_result (getitem (split last ''LO_OBS_DS_AREA1_'') 1) (\<lambda>rest.
     bind_result (getitem (split rest ''_'') 0) (\<lambda>ident.
     Inr (''LO_OBS_DS_AREA1_'' @ ident @ ''.xml''))))"

text \<open>
  The \<^verbatim>\<open>try\<close> block with its \<^verbatim>\<open>except Exception\<close>: the value of \<^verbatim>\<open>ac_source\<close>
  afterwards and the files afterwards. Any raise inside the block leaves \<^verbatim>\<open>ac_source\<close>
  at \<^verbatim>\<open>None\<close>; the messages it prints are not modelled.
\<close>

definition fetch_archive :: "env \<Rightarrow> string \<Rightarrow> string option \<Rightarrow> files \<Rightarrow> string option \<times> files" where
  "fetch_archive E url filename fs =
     (case requests_get E url of
        None \<Rightarrow> (None, fs)
      | Some resp \<Rightarrow>
          (case zip_members E (content resp) of
             None \<Rightarrow> (None, fs)
           | Some members \<Rightarrow>
               (let files = filter (\<lambda>n. endswith n ''.xml'') (map fst members) in
                if length files = 1
                then (case map_of (rev members) (hd files) of
                        Some (Some ac_source) \<Rightarrow>
                          (case filename of
                             None \<Rightarrow> (Some ac_source, fs)
                           | Some f \<Rightarrow> (Some ac_source, fs(f \<mapsto> ac_source)))
                      | _ \<Rightarrow> (None, fs))
                else (None, fs))))"

text \<open>
  The result and the files the call leaves behind. \<^term>\<open>dirs\<close> lists the existing
  directories; \<^verbatim>\<open>resolve\<close> is taken to leave the path as it is. The publication date
  is paired with every row.
\<close>

definition get_austro_control_data ::
  "env \<Rightarrow> string list \<Rightarrow> string option \<Rightarrow> int \<Rightarrow> bool \<Rightarrow> files \<Rightarrow>
     ((obstacle \<times> string) geodataframe \<times> string option) result \<times> files" where
  "get_austro_control_data E dirs data_path list_index overwrite fs =
     (case get_austro_control_links E of
        Inl e \<Rightarrow> (Inl e, fs)
      | Inr urls \<Rightarrow>
          if \<not> list_index < int (length urls) then (Inl AssertionError, fs)
          else (case getitem urls list_index of
                  Inl e \<Rightarrow> (Inl e, fs)
                | Inr (publication_date, url) \<Rightarrow>
                    (case expected_name url of
                       Inl e \<Rightarrow> (Inl e, fs)
                     | Inr name \<Rightarrow>
                         if \<not> (case data_path of None \<Rightarrow> True | Some d \<Rightarrow> d \<in> set dirs)
                         then (Inl AssertionError, fs)
                         else
                           (let filename = map_option (\<lambda>d. d @ ''/'' @ name) data_path;
                                (ac_source, fs') =
                                  (case filename of
                                     None \<Rightarrow> fetch_archive E url filename fs
                                   | Some f \<Rightarrow>
                                       if fs f = None \<or> overwrite
                                       then fetch_archive E url filename fs
                                       else (fs f, fs))
                            in (case parse_icao E ac_source of
                                  Inl e \<Rightarrow> (Inl e, fs')
                                | Inr df_austro \<Rightarrow>
                                    (Inr (\<lparr>columns = columns df_austro @
                                                      [''PublicationDate''],
                                            rows = map (\<lambda>r. (r, publication_date))
                                                      (rows df_austro),
                                            crs = crs df_austro\<rparr>, filename), fs'))))))"

section \<open>\<^verbatim>\<open>noe.py\<close>: the permitting dataset\<close>

datatype dtype = T_category | T_date | T_float | T_int

datatype "value" = Null | Text string | Integer int | Number rat | Day date

definition Koordinaten_Laenge :: string where
  "Koordinaten_Laenge = ''Koordinaten L'' @ CHR 0xE4 # ''nge [WGS 84]''"

definition Koordinaten_Breite :: string where
  "Koordinaten_Breite = ''Koordinaten Breite [WGS 84]''"

definition dtypes :: "(string \<times> dtype) list" where
  "dtypes =
    [(''Kennzeichen (UVP)'', T_category),
     (''Kennzeichen (ER)'', T_category),
     (''Rechtsmaterie'', T_category),
     (''Betreiber'', T_category),
     (''Vorhaben'', T_category),
     (''Datum Genehmigungsantrag'', T_date),
     (''Datum Entscheidung 1. Instanz (Bescheid)'', T_date),
     (''Datum Fertigstellungsmeldung'', T_date),
     (''Status'', T_category),
     (CHR 0xC4 # ''nderung'', T_category),
     (''Repowering'', T_category),
     (''Name der WKA'', T_category),
     (''Leistung der WKA [MW]'', T_float),
     (''Gesamtleistung [MW]'', T_float),
     (''Gesamth'' @ CHR 0xF6 # ''he der WKA [m]'', T_float),
     (''Type'', T_category),
     (''Grundst'' @ CHR 0xFC # ''cks-Nummer'', T_category),
     (''Katastralgemeinde'', T_category),
     (''Gemeinde'', T_category),
     (''Bezirk'', T_category),
     (''Hauptregion'', T_category),
     (''KG-Nummer'', T_int),
     (Koordinaten_Laenge, T_float),
     (Koordinaten_Breite, T_float),
     (''Zusatzinformation'', T_category),
     (''Stand'', T_category)]"

text \<open>
  A row of the frame: the feature it was built from (its raw attribute cells), the cells
  the coercion loops have assigned so far, and the geometry. Reading a column that a loop
  is about to coerce reads the raw cell; every later read finds the assigned one.
\<close>

record permit =
  source :: feature
  cells :: "(string \<times> value) list"
  geom :: point

text \<open>A cell of a column the feature does not have is \<^verbatim>\<open>NaN\<close>.\<close>

definition raw_cell :: "permit \<Rightarrow> string \<Rightarrow> string option" where
  "raw_cell r col = (case map_of (properties (source r)) col of None \<Rightarrow> None | Some v \<Rightarrow> v)"

definition cell :: "permit \<Rightarrow> string \<Rightarrow> value" where
  "cell r col = (case map_of (cells r) col of None \<Rightarrow> Null | Some v \<Rightarrow> v)"

fun put :: "string \<Rightarrow> value \<Rightarrow> (string \<times> value) list \<Rightarrow> (string \<times> value) list" where
  "put k v [] = [(k, v)]"
| "put k v ((k', v') # kvs) = (if k = k' then (k, v) # kvs else (k', v') # put k v kvs)"

text \<open>
  \<^verbatim>\<open>GeoDataFrame.from_features\<close>: the geometry column, then one column per property
  name in order of first appearance.
\<close>

definition from_features :: "feature list \<Rightarrow> nat \<Rightarrow> permit geodataframe" where
  "from_features features epsg =
     \<lparr>columns = ''geometry'' #
                  rev (remdups (rev (concat (map (\<lambda>f. map fst (properties f)) features)))),
      rows = map (\<lambda>f. \<lparr>source = f, cells = [], geom = shape f\<rparr>) features,
      crs = epsg\<rparr>"

text \<open>\<^verbatim>\<open>gdf.drop(columns=cols, errors="ignore")\<close>.\<close>

definition drop_columns :: "string list \<Rightarrow> 'r geodataframe \<Rightarrow> 'r geodataframe" where
  "drop_columns cols gdf = gdf\<lparr>columns := filter (\<lambda>c. c \<notin> set cols) (columns gdf)\<rparr>"

text \<open>\<^verbatim>\<open>gdf[cols]\<close>: every requested column has to exist.\<close>

definition select_columns :: "string list \<Rightarrow> 'r geodataframe \<Rightarrow> 'r geodataframe result" where
  "select_columns cols gdf =
     (let missing = filter (\<lambda>c. c \<notin> set (columns gdf)) cols in
      if missing \<noteq> [] then Inl (KeyError (join '', '' missing) )
      else Inr (gdf\<lparr>columns := cols\<rparr>))"

text \<open>The four coercions, on one cell.\<close>

definition astype_int :: "env \<Rightarrow> string option \<Rightarrow> value result" where
  "astype_int E v =
     (case v of
        None \<Rightarrow> Inl TypeError
      | Some s \<Rightarrow> (case py_int E s of
                     None \<Rightarrow> Inl (ValueError ''invalid literal for int()'')
                   | Some n \<Rightarrow> Inr (Integer n)))"

definition coerce_float :: "env \<Rightarrow> string option \<Rightarrow> value result" where
  "coerce_float E v =
     (case v of
        None \<Rightarrow> Inr Null
      | Some s \<Rightarrow> (case to_numeric E (replace s '','' ''.'') of
                     None \<Rightarrow> Inl (ValueError ''Unable to parse string'')
                   | Some None \<Rightarrow> Inr Null
                   | Some (Some q) \<Rightarrow> Inr (Number (round_dec 6 q))))"

definition coerce_date :: "env \<Rightarrow> string option \<Rightarrow> value result" where
  "coerce_date E v =
     (case v of
        None \<Rightarrow> Inr Null
      | Some s \<Rightarrow> (case to_datetime E s of
                     None \<Rightarrow> Inl (ValueError ''time data does not match format'')
                   | Some d \<Rightarrow> Inr (Day d)))"

definition coerce_category :: "string option \<Rightarrow> value result" where
  "coerce_category v = (case v of None \<Rightarrow> Inr Null | Some s \<Rightarrow> Inr (Text (strip s)))"

text \<open>\<^verbatim>\<open>gdf[col] = f(gdf[col])\<close>: the whole column, row by row; the first raise wins.\<close>

definition assign :: "(string option \<Rightarrow> value result) \<Rightarrow> string \<Rightarrow> permit list \<Rightarrow> permit list result" where
  "assign f col rs =
     map_result (\<lambda>r. bind_result (f (raw_cell r col))
                        (\<lambda>v. Inr (r\<lparr>cells := put col v (cells r)\<rparr>))) rs"

fun for_cols :: "(string \<Rightarrow> permit list \<Rightarrow> permit list result) \<Rightarrow> string list \<Rightarrow>
    permit list \<Rightarrow> permit list result" where
  "for_cols body [] rs = Inr rs"
| "for_cols body (col # cols) rs =
     (case body col rs of Inl e \<Rightarrow> Inl e | Inr rs' \<Rightarrow> for_cols body cols rs')"

definition cols_of :: "dtype \<Rightarrow> string list" where
  "cols_of d = map fst (filter (\<lambda>(col, dt). dt = d) dtypes)"

text \<open>The identity key of a row and what the duplicate handling prints.\<close>

type_synonym key = "value \<times> value \<times> value \<times> value"

definition key_cols :: "string list" where
  "key_cols = [''Vorhaben'', ''Name der WKA'', Koordinaten_Laenge, Koordinaten_Breite]"

definition key_of :: "permit \<Rightarrow> key" where
  "key_of r = (cell r ''Vorhaben'', cell r ''Name der WKA'',
               cell r Koordinaten_Laenge, cell r Koordinaten_Breite)"

datatype printed = Line string | Series "(nat \<times> key) list"

text \<open>
  \<^verbatim>\<open>key[key.duplicated(keep=False)]\<close> and \<^verbatim>\<open>key.drop_duplicates(keep="first")\<close> on the series
  of keys with its index labels.
\<close>

definition duplicated_all :: "(nat \<times> 'k) list \<Rightarrow> (nat \<times> 'k) list" where
  "duplicated_all key = filter (\<lambda>(i, k). 1 < count_list (map snd key) k) key"

fun drop_duplicates_from :: "'k list \<Rightarrow> (nat \<times> 'k) list \<Rightarrow> (nat \<times> 'k) list" where
  "drop_duplicates_from seen [] = []"
| "drop_duplicates_from seen ((i, k) # key) =
     (if k \<in> set seen then drop_duplicates_from seen key
      else (i, k) # drop_duplicates_from (k # seen) key)"

definition drop_duplicates :: "(nat \<times> 'k) list \<Rightarrow> (nat \<times> 'k) list" where
  "drop_duplicates key = drop_duplicates_from [] key"

text \<open>
  The order of \<^verbatim>\<open>sort_values\<close> on a categorical column: the texts in code point order,
  nulls last; the sort is stable.
\<close>

definition sort_rank :: "value \<Rightarrow> bool \<times> string" where
  "sort_rank v = (case v of Text s \<Rightarrow> (False, s) | _ \<Rightarrow> (True, []))"

definition sort_values :: "permit list \<Rightarrow> permit list" where
  "sort_values rs =
     sort_key (\<lambda>r. (sort_rank (cell r ''Vorhaben''), sort_rank (cell r ''Name der WKA''))) rs"

text \<open>
  The four coercion loops, in the order of the code, and the two coordinate columns
  overwritten from the geometry.
\<close>

definition coerce_columns :: "env \<Rightarrow> permit list \<Rightarrow> permit list result" where
  "coerce_columns E rs =
     bind_result (for_cols (assign (astype_int E)) (cols_of T_int) rs) (\<lambda>rs.
     bind_result (for_cols (assign (coerce_float E)) (cols_of T_float) rs) (\<lambda>rs.
     bind_result (for_cols (assign (coerce_date E)) (cols_of T_date) rs) (\<lambda>rs.
     bind_result (for_cols (assign coerce_category) (cols_of T_category) rs) (\<lambda>rs.
     let rs = map (\<lambda>r. r\<lparr>cells := put Koordinaten_Laenge
                                       (Number (round_dec 6 (fst (geom r)))) (cells r)\<rparr>) rs;
         rs = map (\<lambda>r. r\<lparr>cells := put Koordinaten_Breite
                                       (Number (round_dec 6 (snd (geom r)))) (cells r)\<rparr>) rs
     in Inr rs))))"

text \<open>
  The duplicate handling: the rows it keeps and what it prints. The index of the frame
  is still the range of positions here, so \<^verbatim>\<open>gdf.loc[key.index]\<close> picks rows by
  position.
\<close>

definition remove_duplicates :: "permit list \<Rightarrow> permit list \<times> printed list" where
  "remove_duplicates rs =
     (let key = zip [0 ..< length rs] (map key_of rs);
          duplicates = duplicated_all key
      in
      if duplicates \<noteq> []
      then
        (let kept = map (\<lambda>(i, k). rs ! i) (drop_duplicates key) in
         (kept,
          [Line (''Size before removing duplicates: '' @ str_nat (length rs)),
           Line ''Duplicated key values found:'',
           Series duplicates,
           Line (''Size after removing duplicates: '' @ str_nat (length kept))]))
      else (rs, []))"

text \<open>
  Everything \<^verbatim>\<open>download_noe_geojson\<close> does with the decoded features: the frame it
  returns and what it prints on the way.
\<close>

definition normalize_features :: "env \<Rightarrow> feature list \<Rightarrow> (permit geodataframe \<times> printed list) result" where
  "normalize_features E features =
     (let gdf = from_features features 4326;
          gdf = drop_columns [''_fulltext'', ''_title'', ''_zoomscale''] gdf
      in
      bind_result (select_columns (map fst dtypes @ [''geometry'']) gdf) (\<lambda>gdf.
      let unmapped_cols = filter (\<lambda>col. col \<notin> set (map fst dtypes)) (columns gdf);
          unmapped_cols = remove1 ''geometry'' unmapped_cols
      in
      if unmapped_cols \<noteq> []
      then Inl (ValueError (''Unmapped columns found: '' @ join '', '' unmapped_cols))
      else
        bind_result (coerce_columns E (rows gdf)) (\<lambda>rs.
        let (rs, out) = remove_duplicates rs
        in Inr (gdf\<lparr>rows := sort_values rs\<rparr>, out))))"

text \<open>
  \<^verbatim>\<open>download_noe_geojson\<close>; the URL is a constant of a module that is not part of the
  sources, so it is an argument. \<^term>\<open>Inr (None, out)\<close> is the return of \<^verbatim>\<open>None\<close>.
\<close>

definition download_noe_geojson ::
  "env \<Rightarrow> string \<Rightarrow> (permit geodataframe option \<times> printed list) result" where
  "download_noe_geojson E NOE_GEOJSON_URL =
     (case requests_get E NOE_GEOJSON_URL of
        None \<Rightarrow> Inr (None, [Line ''Error downloading NOE GeoJSON data''])
      | Some resp \<Rightarrow>
          if 400 \<le> status_code resp \<and> status_code resp < 600
          then Inr (None, [Line ''Error downloading NOE GeoJSON data''])
          else (case resp_json E (content resp) of
                  None \<Rightarrow> Inr (None, [Line ''Error downloading NOE GeoJSON data''])
                | Some NotADict \<Rightarrow> Inr (None, [Line ''Invalid GeoJSON data received.''])
                | Some (Dict None) \<Rightarrow> Inr (None, [Line ''Invalid GeoJSON data received.''])
                | Some (Dict (Some features)) \<Rightarrow>
                    bind_result (normalize_features E features)
                      (\<lambda>(gdf, out). Inr (Some gdf, out))))"

section \<open>Values for evaluating the model\<close>

text \<open>The number a decimal text denotes, the inverse of \<^const>\<open>str_nat\<close>.\<close>

fun nat_of_digits :: "nat \<Rightarrow> string \<Rightarrow> nat" where
  "nat_of_digits a [] = a"
| "nat_of_digits a (c # cs) = nat_of_digits (10 * a + (of_char c - 48)) cs"

text \<open>A row hash over rows of text cells, and a frame of two rows.\<close>

definition sample_hash :: "int \<times> string list \<Rightarrow> 64 word" where
  "sample_hash r = (case r of (i, cs) \<Rightarrow>
      word_of_int i * 0x9E3779B97F4A7C15
      + word_of_nat (foldl (\<lambda>a c. a * 31 + of_char c) 7 (concat cs)) * 0xC2B2AE3D27D4EB4F)"

definition sample_frame :: "string list frame" where
  "sample_frame = [(0, [''Alpha'', ''WKA 1'']), (1, [''Beta'', ''WKA 2''])]"

text \<open>
  An environment: parsers for plain decimal notation, a catalog page with five links, and
  what the server answers for each of them.
\<close>

definition is_digits :: "string \<Rightarrow> bool" where
  "is_digits s = (s \<noteq> [] \<and> list_all (\<lambda>c. 48 \<le> (of_char c :: nat) \<and> (of_char c :: nat) \<le> 57) s)"

definition sample_int :: "string \<Rightarrow> int option" where
  "sample_int s = (if is_digits s then Some (int (nat_of_digits 0 s)) else None)"

definition sample_decimal :: "string \<Rightarrow> rat option" where
  "sample_decimal s =
     (case split s ''.'' of
        [a] \<Rightarrow> if is_digits a then Some (of_nat (nat_of_digits 0 a)) else None
      | [a, b] \<Rightarrow>
          if is_digits a \<and> is_digits b
          then Some (of_nat (nat_of_digits 0 a) + of_nat (nat_of_digits 0 b) / 10 ^ length b)
          else None
      | _ \<Rightarrow> None)"

definition sample_date :: "string \<Rightarrow> date option" where
  "sample_date s =
     (case split s ''.'' of
        [d, m, y] \<Rightarrow>
          if is_digits d \<and> is_digits m \<and> is_digits y
          then Some (nat_of_digits 0 y, nat_of_digits 0 m, nat_of_digits 0 d)
          else None
      | _ \<Rightarrow> None)"

definition leaf :: "string \<Rightarrow> string \<Rightarrow> xml" where
  "leaf t x = Element t [] (Some x) []"

definition sample_part :: "string \<Rightarrow> string \<Rightarrow> xml" where
  "sample_part ident pos =
     Element (aixm ''VerticalStructurePart'') [(gml ''id'', ident)] None
       [leaf (aixm ''verticalExtent'') ''199.5'',
        leaf (aixm ''verticalExtentAccuracy'') ''1'',
        leaf (aixm ''type'') ''WINDMILL'',
        Element (aixm ''ElevatedPoint'') [] None
          [leaf (gml ''pos'') pos,
           leaf (aixm ''elevation'') ''420.25'',
           leaf (aixm ''horizontalAccuracy'') ''n/a'']]"

definition sample_structure :: "string \<Rightarrow> xml list \<Rightarrow> xml" where
  "sample_structure ty parts =
     Element (aixm ''VerticalStructure'') [] None
       ([leaf (aixm ''name'') ''WP_0815'',
         leaf (aixm ''type'') ty,
         leaf (aixm ''constructionStatus'') '' COMPLETED '',
         Element (aixm ''Note'') [] None [leaf (aixm ''note'') ''Windpark Testfeld Nord '']]
        @ parts)"

definition sample_doc :: xml where
  "sample_doc =
     Element ''AIXMBasicMessage'' [] None
       [sample_structure ''OTHER'' [sample_part ''VSP_7'' ''47.0 15.0''],
        sample_structure ''WINDMILL_FARMS''
          [sample_part ''VSP_1001'' ''48.125 16.5'', sample_part ''VSP_1002'' ''48.25 16.75'']]"

definition sample_doc_duplicate :: xml where
  "sample_doc_duplicate =
     Element ''AIXMBasicMessage'' [] None
       [sample_structure ''WINDMILL''
          [sample_part ''VSP_1001_a'' ''48.125 16.5'', sample_part ''VSP_1001_b'' ''48.25 16.75'']]"

definition sample_doc_other :: xml where
  "sample_doc_other =
     Element ''AIXMBasicMessage'' [] None
       [sample_structure ''OTHER'' [sample_part ''VSP_7'' ''47.0 15.0''],
        sample_structure ''BUILDING'' []]"

definition sample_href :: "string \<Rightarrow> string" where
  "sample_href d = ''uploads/LO_OBS_DS_AREA1_'' @ d @ ''_v1.zip''"

definition sample_category :: "string \<Rightarrow> string \<Rightarrow> string \<Rightarrow> dtype \<Rightarrow> string option" where
  "sample_category vorhaben wka col t =
     (if col = ''Vorhaben'' then Some vorhaben
      else if col = ''Name der WKA'' then Some wka
      else (case t of
              T_category \<Rightarrow> Some '' text ''
            | T_date \<Rightarrow> Some ''05.03.2021''
            | T_float \<Rightarrow> Some ''1,23''
            | T_int \<Rightarrow> Some ''12345''))"

definition sample_feature :: "string \<Rightarrow> string \<Rightarrow> point \<Rightarrow> feature" where
  "sample_feature vorhaben wka pt =
     \<lparr>properties = map (\<lambda>(col, t). (col, sample_category vorhaben wka col t)) dtypes,
      shape = pt\<rparr>"

definition sample_features :: "feature list" where
  "sample_features =
     [sample_feature ''Windpark B'' ''WKA 1'' (16.5, 48.125),
      sample_feature ''Windpark A'' ''WKA 1'' (16.75, 48.25),
      sample_feature ''Windpark B'' ''WKA 1'' (16.5, 48.125)]"

definition sample_env :: env where
  "sample_env =
     \<lparr>requests_get = (\<lambda>url.
        if url = catalog_url then Some \<lparr>status_code = 200, content = ''catalog''\<rparr>
        else if url = base_url @ sample_href ''20250401''
          then Some \<lparr>status_code = 200, content = ''zip-one-xml''\<rparr>
        else if url = base_url @ sample_href ''20250301''
          then Some \<lparr>status_code = 200, content = ''zip-no-xml''\<rparr>
        else if url = base_url @ sample_href ''20250201''
          then Some \<lparr>status_code = 200, content = ''zip-two-xml''\<rparr>
        else if url = base_url @ sample_href ''20250101''
          then Some \<lparr>status_code = 404, content = ''not found''\<rparr>
        else if url = ''https://example.org/noe.geojson''
          then Some \<lparr>status_code = 200, content = ''features''\<rparr>
        else None),
      download_liste = (\<lambda>page.
        if page = ''catalog''
        then Some (map (\<lambda>d. Some (sample_href d))
                    [''20250201'', ''20250401'', ''20241201'', ''20250301'', ''20250101''])
        else None),
      zip_members = (\<lambda>bytes.
        if bytes = ''zip-one-xml''
          then Some [(''readme.txt'', Some ''text''), (''obstacles.xml'', Some ''obstacles'')]
        else if bytes = ''zip-no-xml'' then Some [(''readme.txt'', Some ''text'')]
        else if bytes = ''zip-two-xml''
          then Some [(''a.xml'', Some ''obstacles''), (''b.xml'', Some ''obstacles'')]
        else None),
      fromstring = (\<lambda>bytes.
        if bytes = ''obstacles'' then Some sample_doc
        else if bytes = ''duplicate'' then Some sample_doc_duplicate
        else if bytes = ''other'' then Some sample_doc_other
        else None),
      resp_json = (\<lambda>bytes.
        if bytes = ''features'' then Some (Dict (Some sample_features)) else None),
      py_int = sample_int,
      py_float = sample_decimal,
      to_numeric = (\<lambda>s. map_option Some (sample_decimal s)),
      to_datetime = sample_date\<rparr>"

text \<open>The records collected from the second structure of the sample documents.\<close>

definition sample_wtg :: "string \<Rightarrow> string list \<Rightarrow> wtg" where
  "sample_wtg name pos =
     \<lparr>raw_WindFarm = ''Testfeld Nord'', raw_WPID = Some ''WP_0815'', raw_Name = name,
      raw_VerticalExtent = Some ''199.5'', raw_VerticalAccuracy = Some ''1'',
      raw_HorizontalAccuracy = Some ''n/a'', raw_geometry = pos, raw_Status = ''COMPLETED'',
      raw_Elevation = Some ''420.25'', raw_Type = Some ''WINDMILL''\<rparr>"

section \<open>Properties of \<^verbatim>\<open>helpers.py\<close>\<close>

lemma digit_char_simps:
  "digit_char 0 = CHR ''0''" "digit_char (Suc 0) = CHR ''1''" "digit_char 1 = CHR ''1''"
  "digit_char 2 = CHR ''2''" "digit_char 3 = CHR ''3''" "digit_char 4 = CHR ''4''"
  "digit_char 5 = CHR ''5''" "digit_char 6 = CHR ''6''" "digit_char 7 = CHR ''7''"
  "digit_char 8 = CHR ''8''" "digit_char 9 = CHR ''9''"
  by (simp_all add: digit_char_def char_of_eq_iff)

lemma digit_char_not_space: "d < 10 \<Longrightarrow> \<not> isspace (digit_char d)"
  by (simp add: isspace_def digit_char_def Let_def)

lemma str_nat_no_space: "c \<in> set (str_nat n) \<Longrightarrow> \<not> isspace c"
proof (induction n rule: str_nat.induct)
  case (1 n)
  show ?case
  proof (cases "n < 10")
    case True
    with "1.prems" show ?thesis
      by (simp add: str_nat.simps [of n] digit_char_not_space)
  next
    case False
    with "1.prems" have "c \<in> set (str_nat (n div 10)) \<or> c = digit_char (n mod 10)"
      by (auto simp add: str_nat.simps [of n])
    then show ?thesis
      using "1.IH" False by (auto simp: digit_char_not_space)
  qed
qed

lemma dropWhile_none: "\<forall>c \<in> set s. \<not> P c \<Longrightarrow> dropWhile P s = s"
  by (cases s) simp_all

lemma strip_no_space: "\<forall>c \<in> set s. \<not> isspace c \<Longrightarrow> strip s = s"
  by (simp add: strip_def lstrip_def rstrip_def dropWhile_none)

text \<open>A fingerprint is all digits, so reading it back with \<^verbatim>\<open>strip\<close> returns it.\<close>

lemma strip_str_nat: "strip (str_nat n) = str_nat n"
  by (rule strip_no_space) (simp add: str_nat_no_space)

lemma nat_of_digits_append: "nat_of_digits a (xs @ ys) = nat_of_digits (nat_of_digits a xs) ys"
  by (induction xs arbitrary: a) auto

lemma digit_val: "d < 10 \<Longrightarrow> of_char (digit_char d) - 48 = (d::nat)"
  by (simp add: digit_char_def)

lemma nat_of_digits_str_nat: "nat_of_digits 0 (str_nat n) = n"
proof (induction n rule: str_nat.induct)
  case (1 n)
  show ?case
  proof (cases "n < 10")
    case True
    then show ?thesis by (simp add: str_nat.simps [of n] digit_val)
  next
    case False
    then show ?thesis using "1.IH"
      by (simp add: str_nat.simps [of n] nat_of_digits_append digit_val)
  qed
qed

lemma str_nat_inject: "str_nat n = str_nat m \<longleftrightarrow> n = m"
  by (metis nat_of_digits_str_nat)

lemma calculate_gdf_hash_eq_iff:
  "calculate_gdf_hash h gdf1 = calculate_gdf_hash h gdf2 \<longleftrightarrow>
     sum_list (map h gdf1) = sum_list (map h gdf2)"
proof -
  have "unat a = unat b \<longleftrightarrow> a = b" for a b :: "64 word"
    using word_unat_eq_iff [of a b] by simp
  then show ?thesis
    by (simp add: calculate_gdf_hash_def hash_pandas_object_def str_nat_inject)
qed

lemma sum_list_map_mset:
  fixes h :: "'a \<Rightarrow> 64 word"
  assumes "mset xs = mset ys"
  shows "sum_list (map h xs) = sum_list (map h ys)"
proof -
  from assms have "mset (map h xs) = mset (map h ys)" by simp
  then have "sum_mset (mset (map h xs)) = sum_mset (mset (map h ys))" by simp
  then show ?thesis by (simp only: sum_mset_sum_list)
qed

lemma calculate_gdf_hash_mset:
  "mset gdf1 = mset gdf2 \<Longrightarrow> calculate_gdf_hash h gdf1 = calculate_gdf_hash h gdf2"
  using sum_list_map_mset [of gdf1 gdf2 h] by (simp add: calculate_gdf_hash_eq_iff)

text \<open>
  Claim C2, as the code has it. Two frames receive the same fingerprint exactly when the
  wrapping 64-bit sums of their row hashes agree. Each row hash covers the row's index
  label and its cells, and a sum does not depend on the order of its terms: two frames
  made of the same labelled rows, in whatever order, receive the same fingerprint. In
  particular two frames with identical labels and cells in identical order do. The order
  of the rows reaches the fingerprint only through the index labels the rows carry.
\<close>

theorem calculate_gdf_hash_row_sum:
  "(calculate_gdf_hash h gdf1 = calculate_gdf_hash h gdf2 \<longleftrightarrow>
      sum_list (map h gdf1) = sum_list (map h gdf2))
   \<and> (mset gdf1 = mset gdf2 \<longrightarrow> calculate_gdf_hash h gdf1 = calculate_gdf_hash h gdf2)"
  using calculate_gdf_hash_eq_iff [of h gdf1 gdf2] calculate_gdf_hash_mset [of gdf1 gdf2 h]
  by blast

theorem calculate_gdf_hash_row_sum_witness:
  "mset (rev sample_frame) = mset sample_frame
   \<and> rev sample_frame \<noteq> sample_frame
   \<and> calculate_gdf_hash sample_hash (rev sample_frame) = ''14656794766611561398''
   \<and> calculate_gdf_hash sample_hash sample_frame = ''14656794766611561398''"
proof -
  have m: "mset (rev sample_frame) = mset sample_frame" by simp
  have d: "rev sample_frame \<noteq> sample_frame" by (simp add: sample_frame_def)
  have s: "sum_list (hash_pandas_object sample_hash sample_frame) = 14656794766611561398"
    by (simp add: hash_pandas_object_def sample_hash_def sample_frame_def)
  have v: "calculate_gdf_hash sample_hash sample_frame = ''14656794766611561398''"
    unfolding calculate_gdf_hash_def s by (simp add: str_nat.simps digit_char_simps)
  from calculate_gdf_hash_row_sum [of sample_hash "rev sample_frame" sample_frame] m
  have "calculate_gdf_hash sample_hash (rev sample_frame)
        = calculate_gdf_hash sample_hash sample_frame" by blast
  with m d v show ?thesis by simp
qed

text \<open>
  The frame of two rows and the same frame with its rows swapped, each row keeping its
  index label, differ in row order and receive the same fingerprint, whatever the row
  hash is.
\<close>

theorem reordered_rows_same_hash:
  "[(1, [''Beta'', ''WKA 2'']), (0, [''Alpha'', ''WKA 1''])]
     \<noteq> [(0::int, [''Alpha'', ''WKA 1'']), (1, [''Beta'', ''WKA 2''])]
   \<and> (\<forall>h. calculate_gdf_hash h [(1, [''Beta'', ''WKA 2'']), (0, [''Alpha'', ''WKA 1''])]
          = calculate_gdf_hash h [(0, [''Alpha'', ''WKA 1'']), (1, [''Beta'', ''WKA 2''])])"
  by (simp add: calculate_gdf_hash_eq_iff add.commute)

text \<open>
  Claim C3. \<^const>\<open>is_data_updated\<close> returns \<^term>\<open>False\<close> exactly when the hash file
  exists and the fingerprint read from it equals the fresh one, and then leaves the files
  as they are; otherwise it returns \<^term>\<open>True\<close> and the hash file holds the fresh
  fingerprint. A first call without a hash file returns \<^term>\<open>True\<close> and creates the
  file; the next call with the same frame returns \<^term>\<open>False\<close> and changes nothing.
\<close>

theorem is_data_updated_gate:
  "is_data_updated h gdf hash_file fs =
     (if (\<exists>c. fs hash_file = Some c \<and> strip c = calculate_gdf_hash h gdf) then (False, fs)
      else (True, fs(hash_file \<mapsto> calculate_gdf_hash h gdf)))
   \<and> (fs hash_file = None \<longrightarrow>
        is_data_updated h gdf hash_file fs = (True, fs(hash_file \<mapsto> calculate_gdf_hash h gdf))
        \<and> is_data_updated h gdf hash_file (fs(hash_file \<mapsto> calculate_gdf_hash h gdf))
            = (False, fs(hash_file \<mapsto> calculate_gdf_hash h gdf)))"
  by (auto simp: is_data_updated_def Let_def calculate_gdf_hash_def strip_str_nat
      split: option.splits)

theorem is_data_updated_gate_witness:
  "is_data_updated sample_hash sample_frame ''data/windkraftanlagen.hash'' Map.empty
     = (True, [''data/windkraftanlagen.hash'' \<mapsto> calculate_gdf_hash sample_hash sample_frame])
   \<and> is_data_updated sample_hash sample_frame ''data/windkraftanlagen.hash''
        [''data/windkraftanlagen.hash'' \<mapsto> calculate_gdf_hash sample_hash sample_frame]
     = (False, [''data/windkraftanlagen.hash'' \<mapsto> calculate_gdf_hash sample_hash sample_frame])"
  using is_data_updated_gate [of sample_hash sample_frame "''data/windkraftanlagen.hash''" Map.empty]
  by simp

section \<open>Results, comprehensions and evaluation rules\<close>

lemma bind_result_simps [simp]:
  "bind_result (Inl e) f = Inl e" "bind_result (Inr v) f = f v"
  by (simp_all add: bind_result_def)

lemma map_result_length: "map_result f xs = Inr ys \<Longrightarrow> length ys = length xs"
  by (induction xs arbitrary: ys) (auto split: sum.splits)

lemma map_result_nth:
  "map_result f xs = Inr ys \<Longrightarrow> i < length xs \<Longrightarrow> f (xs ! i) = Inr (ys ! i)"
proof (induction xs arbitrary: ys i)
  case Nil
  then show ?case by simp
next
  case (Cons x xs)
  then show ?case by (cases i) (auto split: sum.splits)
qed

lemma map_result_set:
  "map_result f xs = Inr ys \<Longrightarrow> y \<in> set ys \<Longrightarrow> \<exists>x \<in> set xs. f x = Inr y"
  by (induction xs arbitrary: ys) (auto split: sum.splits)

lemma map_result_all: "\<forall>x \<in> set xs. f x = Inr (g x) \<Longrightarrow> map_result f xs = Inr (map g xs)"
  by (induction xs) auto

lemmas str_defs = split_def split_max_def startswith_def endswith_def strip_def lstrip_def
  rstrip_def isspace_def replace_def

lemmas sample_parser_defs = sample_int_def sample_decimal_def sample_date_def is_digits_def

lemma char_less_simps [simp]:
  "(c :: char) < d \<longleftrightarrow> (of_char c :: nat) < of_char d"
  by (simp add: less_char_def)


section \<open>Properties of \<^verbatim>\<open>austro_control.py\<close>\<close>

text \<open>What a successful run of the tree part of the parser went through.\<close>

lemma parse_icao_root_Inr:
  assumes "parse_icao_root E tree = Inr df"
  obtains wtgs uids x y pts where
    "collect_wtgs tree = Inr wtgs"
    "derive_uids E wtgs = Inr uids"
    "map_result (\<lambda>w. getitem (raw_geometry w) 1) wtgs = Inr x"
    "map_result (\<lambda>w. getitem (raw_geometry w) 0) wtgs = Inr y"
    "points_from_xy E x y = Inr pts"
    "distinct uids"
    "rows df = map (\<lambda>(w, uid, pt). obstacle_row E w uid pt) (zip wtgs (zip uids pts))"
    "crs df = 4326"
proof -
  obtain wtgs where a: "collect_wtgs tree = Inr wtgs"
    using assms by (cases "collect_wtgs tree") (simp_all add: parse_icao_root_def)
  obtain uids where b: "derive_uids E wtgs = Inr uids"
    using assms a by (cases "derive_uids E wtgs") (simp_all add: parse_icao_root_def)
  obtain x where c: "map_result (\<lambda>w. getitem (raw_geometry w) 1) wtgs = Inr x"
    using assms a b
    by (cases "map_result (\<lambda>w. getitem (raw_geometry w) 1) wtgs")
      (simp_all add: parse_icao_root_def)
  obtain y where d: "map_result (\<lambda>w. getitem (raw_geometry w) 0) wtgs = Inr y"
    using assms a b c
    by (cases "map_result (\<lambda>w. getitem (raw_geometry w) 0) wtgs")
      (simp_all add: parse_icao_root_def)
  obtain pts where e: "points_from_xy E x y = Inr pts"
    using assms a b c d by (cases "points_from_xy E x y") (simp_all add: parse_icao_root_def)
  have f: "distinct uids"
    using assms a b c d e by (simp add: parse_icao_root_def split: if_splits)
  have "df = \<lparr>columns = [''Name'', ''WPID'', ''WindFarm'', ''HorizontalAccuracy'',
                 ''TerrainElevation'', ''Elevation'', ''VerticalExtent'', ''VerticalAccuracy'',
                 ''Type'', ''Status'', ''geometry'', ''Longitude'', ''Latitude'', ''UID''],
               rows = map (\<lambda>(w, uid, pt). obstacle_row E w uid pt) (zip wtgs (zip uids pts)),
               crs = 4326\<rparr>"
    using assms a b c d e f by (simp add: parse_icao_root_def)
  then have "rows df = map (\<lambda>(w, uid, pt). obstacle_row E w uid pt) (zip wtgs (zip uids pts))"
    and "crs df = 4326" by simp_all
  with a b c d e f show thesis using that by blast
qed

lemma derive_uids_Inr:
  "derive_uids E wtgs = Inr uids \<Longrightarrow> map_result (\<lambda>w. name_uid E (raw_Name w)) wtgs = Inr uids"
  by (simp add: derive_uids_def split: if_splits)

lemma points_from_xy_Inr:
  assumes "points_from_xy E x y = Inr pts"
  obtains xs ys where "map_result (as_float E) x = Inr xs" "map_result (as_float E) y = Inr ys"
    "pts = zip xs ys"
proof -
  obtain xs where a: "map_result (as_float E) x = Inr xs"
    using assms by (cases "map_result (as_float E) x") (simp_all add: points_from_xy_def)
  obtain ys where b: "map_result (as_float E) y = Inr ys"
    using assms a by (cases "map_result (as_float E) y") (simp_all add: points_from_xy_def)
  have "pts = zip xs ys" using assms a b by (simp add: points_from_xy_def)
  with a b show thesis using that by blast
qed

lemma UID_obstacle_row [simp]: "UID (obstacle_row E w uid pt) = uid"
  by (simp add: obstacle_row_def Let_def)

lemma map_UID_rows:
  assumes "length uids = length wtgs" "length pts = length wtgs"
  shows "map UID (map (\<lambda>(w, uid, pt). obstacle_row E w uid pt) (zip wtgs (zip uids pts))) = uids"
proof (rule nth_equalityI)
  show "length (map UID (map (\<lambda>(w, uid, pt). obstacle_row E w uid pt) (zip wtgs (zip uids pts))))
      = length uids" using assms by simp
next
  fix i
  assume "i < length (map UID (map (\<lambda>(w, uid, pt). obstacle_row E w uid pt) (zip wtgs (zip uids pts))))"
  then have "i < length wtgs" using assms by simp
  then show "map UID (map (\<lambda>(w, uid, pt). obstacle_row E w uid pt) (zip wtgs (zip uids pts))) ! i
      = uids ! i" using assms by simp
qed

lemma parse_icao_root_lengths:
  assumes "derive_uids E wtgs = Inr uids"
    "map_result (\<lambda>w. getitem (raw_geometry w) 1) wtgs = Inr x"
    "map_result (\<lambda>w. getitem (raw_geometry w) 0) wtgs = Inr y"
    "points_from_xy E x y = Inr pts"
  shows "length uids = length wtgs" "length pts = length wtgs"
proof -
  show "length uids = length wtgs"
    using derive_uids_Inr [OF assms(1)] by (rule map_result_length)
  obtain xs ys where p: "map_result (as_float E) x = Inr xs" "map_result (as_float E) y = Inr ys"
    "pts = zip xs ys" using assms(4) by (rule points_from_xy_Inr)
  have "length xs = length wtgs" "length ys = length wtgs"
    using map_result_length [OF p(1)] map_result_length [OF p(2)]
      map_result_length [OF assms(2)] map_result_length [OF assms(3)] by simp_all
  then show "length pts = length wtgs" using p(3) by simp
qed

lemma parse_icao_distinct_uid:
  assumes "parse_icao E data = Inr df"
  shows "distinct (map UID (rows df))"
proof -
  obtain d tree where t: "parse_icao_root E tree = Inr df"
    using assms by (auto simp: parse_icao_def split: option.splits)
  from t obtain wtgs uids x y pts where r:
    "derive_uids E wtgs = Inr uids"
    "map_result (\<lambda>w. getitem (raw_geometry w) 1) wtgs = Inr x"
    "map_result (\<lambda>w. getitem (raw_geometry w) 0) wtgs = Inr y"
    "points_from_xy E x y = Inr pts"
    "distinct uids"
    "rows df = map (\<lambda>(w, uid, pt). obstacle_row E w uid pt) (zip wtgs (zip uids pts))"
    by (rule parse_icao_root_Inr)
  have "map UID (rows df) = uids"
    unfolding r(6) using parse_icao_root_lengths [OF r(1-4)] by (rule map_UID_rows)
  with r(5) show ?thesis by simp
qed

lemma parse_icao_shared_uid:
  assumes f: "fromstring E d = Some tree" and c: "collect_wtgs tree = Inr wtgs"
    and ij: "i < j" "j < length wtgs"
    and ui: "name_uid E (raw_Name (wtgs ! i)) = Inr u"
    and uj: "name_uid E (raw_Name (wtgs ! j)) = Inr u"
  shows "\<exists>e. parse_icao E (Some d) = Inl e"
    and "derive_uids E wtgs = Inr uids \<Longrightarrow>
         map_result (\<lambda>w. getitem (raw_geometry w) 1) wtgs = Inr x \<Longrightarrow>
         map_result (\<lambda>w. getitem (raw_geometry w) 0) wtgs = Inr y \<Longrightarrow>
         points_from_xy E x y = Inr pts \<Longrightarrow> parse_icao E (Some d) = Inl AssertionError"
proof -
  have nd: "\<not> distinct us" if "derive_uids E wtgs = Inr us" for us
  proof -
    have m: "map_result (\<lambda>w. name_uid E (raw_Name w)) wtgs = Inr us"
      using that by (rule derive_uids_Inr)
    have l: "length us = length wtgs" using m by (rule map_result_length)
    have "us ! i = u" "us ! j = u"
      using map_result_nth [OF m, of i] map_result_nth [OF m, of j] ij ui uj by simp_all
    moreover have "i < length us" "j < length us" "i \<noteq> j" using ij l by simp_all
    ultimately show ?thesis by (metis nth_eq_iff_index_eq)
  qed
  show "\<exists>e. parse_icao E (Some d) = Inl e"
  proof (cases "parse_icao E (Some d)")
    case (Inl e)
    then show ?thesis by blast
  next
    case (Inr df)
    then have "parse_icao_root E tree = Inr df" using f by (simp add: parse_icao_def)
    then obtain wtgs' uids' where "collect_wtgs tree = Inr wtgs'" "derive_uids E wtgs' = Inr uids'"
      "distinct uids'" by (rule parse_icao_root_Inr)
    then show ?thesis using c nd by simp
  qed
  show "parse_icao E (Some d) = Inl AssertionError"
    if "derive_uids E wtgs = Inr uids"
      "map_result (\<lambda>w. getitem (raw_geometry w) 1) wtgs = Inr x"
      "map_result (\<lambda>w. getitem (raw_geometry w) 0) wtgs = Inr y"
      "points_from_xy E x y = Inr pts"
    using that f c nd [OF that(1)] by (simp add: parse_icao_def parse_icao_root_def)
qed

text \<open>
  Claim C5. Every frame \<^const>\<open>parse_icao\<close> returns has pairwise different \<^const>\<open>UID\<close>s.
  When two collected parts derive the same uid the parser returns no frame but an error,
  and whenever the uid column is derived and all positions convert that error is the
  failed uniqueness assertion.
\<close>

theorem parse_icao_unique_uid:
  "(parse_icao E data = Inr df \<longrightarrow> distinct (map UID (rows df)))
   \<and> (fromstring E d = Some tree \<and> collect_wtgs tree = Inr wtgs \<and> i < j \<and> j < length wtgs
        \<and> name_uid E (raw_Name (wtgs ! i)) = Inr u \<and> name_uid E (raw_Name (wtgs ! j)) = Inr u
      \<longrightarrow> (\<exists>e. parse_icao E (Some d) = Inl e)
          \<and> (derive_uids E wtgs = Inr uids
               \<and> map_result (\<lambda>w. getitem (raw_geometry w) 1) wtgs = Inr x
               \<and> map_result (\<lambda>w. getitem (raw_geometry w) 0) wtgs = Inr y
               \<and> points_from_xy E x y = Inr pts
             \<longrightarrow> parse_icao E (Some d) = Inl AssertionError))"
  using parse_icao_distinct_uid [of E data df]
    parse_icao_shared_uid [of E d tree wtgs i j u]
  by blast

lemma iter_tag: "x \<in> set (iter t e) \<Longrightarrow> tag x = t"
  by (induction t e rule: iter.induct) (auto split: if_splits)

lemma findall_tag: "x \<in> set (findall e t) \<Longrightarrow> tag x = t"
  by (auto simp: findall_def dest: iter_tag)

lemma wtg_dict_geometry:
  assumes "wtg_dict a b c w = Inr r"
  shows "\<exists>pe s. find w (gml ''pos'') = Some pe \<and> text_of pe = Some s
           \<and> raw_geometry r = split s '' ''"
  using assms
  by (auto simp: wtg_dict_def bind_result_def find_text_def on_str_def
      split: sum.splits option.splits)

lemma vertical_structure_parts:
  assumes "vertical_structure p = Inr rs" "r \<in> set rs"
  shows "\<exists>w \<in> set (findall p (aixm ''VerticalStructurePart'')). \<exists>a b c. wtg_dict a b c w = Inr r"
proof -
  from assms obtain a b c where
    "map_result (wtg_dict a b c) (findall p (aixm ''VerticalStructurePart'')) = Inr rs"
    by (auto simp: vertical_structure_def bind_result_def split: sum.splits if_splits option.splits)
  from map_result_set [OF this assms(2)] show ?thesis by blast
qed

lemma collect_wtgs_geometry:
  assumes "collect_wtgs tree = Inr wtgs" "r \<in> set wtgs"
  shows "\<exists>part pe s. tag part = aixm ''VerticalStructurePart''
           \<and> find part (gml ''pos'') = Some pe \<and> text_of pe = Some s
           \<and> raw_geometry r = split s '' ''"
proof -
  from assms(1) obtain per where
    m: "map_result vertical_structure (iter (aixm ''VerticalStructure'') tree) = Inr per"
    and w: "wtgs = concat per"
    by (auto simp: collect_wtgs_def bind_result_def split: sum.splits)
  from assms(2) w obtain rs where rs: "rs \<in> set per" "r \<in> set rs" by auto
  from map_result_set [OF m rs(1)] obtain p where "vertical_structure p = Inr rs" by blast
  from vertical_structure_parts [OF this rs(2)] obtain part a b c where
    p: "part \<in> set (findall p (aixm ''VerticalStructurePart''))" "wtg_dict a b c part = Inr r"
    by blast
  from findall_tag [OF p(1)] wtg_dict_geometry [OF p(2)] show ?thesis by blast
qed

lemma getitem_1: "getitem xs 1 = Inr v \<Longrightarrow> 2 \<le> length xs \<and> v = xs ! 1"
  by (auto simp: getitem_def split: if_splits)

lemma getitem_0: "getitem xs 0 = Inr v \<Longrightarrow> v = xs ! 0"
  by (auto simp: getitem_def split: if_splits)

lemma as_float_Inr: "as_float E s = Inr v \<Longrightarrow> py_float E s = Some v"
  by (simp add: as_float_def split: option.splits)

lemma parse_icao_position:
  assumes f: "fromstring E d = Some tree" and p: "parse_icao E (Some d) = Inr df"
  shows "crs df = 4326
    \<and> (\<exists>wtgs. collect_wtgs tree = Inr wtgs \<and> length (rows df) = length wtgs
         \<and> (\<forall>i < length wtgs.
               (\<exists>part pe s. tag part = aixm ''VerticalStructurePart''
                   \<and> find part (gml ''pos'') = Some pe \<and> text_of pe = Some s
                   \<and> raw_geometry (wtgs ! i) = split s '' '')
               \<and> 2 \<le> length (raw_geometry (wtgs ! i))
               \<and> py_float E (raw_geometry (wtgs ! i) ! 0) = Some (Latitude (rows df ! i))
               \<and> py_float E (raw_geometry (wtgs ! i) ! 1) = Some (Longitude (rows df ! i))
               \<and> geometry (rows df ! i) = (Longitude (rows df ! i), Latitude (rows df ! i))
               \<and> Name (rows df ! i) = raw_Name (wtgs ! i)))"
proof -
  from f p have "parse_icao_root E tree = Inr df" by (simp add: parse_icao_def)
  then obtain wtgs uids x y pts where r:
    "collect_wtgs tree = Inr wtgs"
    "derive_uids E wtgs = Inr uids"
    "map_result (\<lambda>w. getitem (raw_geometry w) 1) wtgs = Inr x"
    "map_result (\<lambda>w. getitem (raw_geometry w) 0) wtgs = Inr y"
    "points_from_xy E x y = Inr pts"
    "distinct uids"
    "rows df = map (\<lambda>(w, uid, pt). obstacle_row E w uid pt) (zip wtgs (zip uids pts))"
    "crs df = 4326"
    by (rule parse_icao_root_Inr)
  obtain xs ys where q: "map_result (as_float E) x = Inr xs" "map_result (as_float E) y = Inr ys"
    "pts = zip xs ys" using r(5) by (rule points_from_xy_Inr)
  note len = parse_icao_root_lengths [OF r(2-5)]
  have lx: "length x = length wtgs" "length y = length wtgs"
    "length xs = length wtgs" "length ys = length wtgs"
    using map_result_length [OF r(3)] map_result_length [OF r(4)]
      map_result_length [OF q(1)] map_result_length [OF q(2)] by simp_all
  have l: "length (rows df) = length wtgs" using r(7) len by simp
  have "\<forall>i < length wtgs.
          (\<exists>part pe s. tag part = aixm ''VerticalStructurePart''
              \<and> find part (gml ''pos'') = Some pe \<and> text_of pe = Some s
              \<and> raw_geometry (wtgs ! i) = split s '' '')
          \<and> 2 \<le> length (raw_geometry (wtgs ! i))
          \<and> py_float E (raw_geometry (wtgs ! i) ! 0) = Some (Latitude (rows df ! i))
          \<and> py_float E (raw_geometry (wtgs ! i) ! 1) = Some (Longitude (rows df ! i))
          \<and> geometry (rows df ! i) = (Longitude (rows df ! i), Latitude (rows df ! i))
          \<and> Name (rows df ! i) = raw_Name (wtgs ! i)"
  proof (intro allI impI)
    fix i
    assume i: "i < length wtgs"
    have row: "rows df ! i = obstacle_row E (wtgs ! i) (uids ! i) (xs ! i, ys ! i)"
      using i len lx r(7) q(3) by simp
    have g1: "2 \<le> length (raw_geometry (wtgs ! i))" "x ! i = raw_geometry (wtgs ! i) ! 1"
      using getitem_1 [OF map_result_nth [OF r(3) i]] by simp_all
    have g0: "y ! i = raw_geometry (wtgs ! i) ! 0"
      using getitem_0 [OF map_result_nth [OF r(4) i]] by simp
    have fx: "py_float E (x ! i) = Some (xs ! i)"
      using map_result_nth [OF q(1), of i] i lx by (simp add: as_float_Inr)
    have fy: "py_float E (y ! i) = Some (ys ! i)"
      using map_result_nth [OF q(2), of i] i lx by (simp add: as_float_Inr)
    have src: "\<exists>part pe s. tag part = aixm ''VerticalStructurePart''
              \<and> find part (gml ''pos'') = Some pe \<and> text_of pe = Some s
              \<and> raw_geometry (wtgs ! i) = split s '' ''"
      using collect_wtgs_geometry [OF r(1), of "wtgs ! i"] i by simp
    show "(\<exists>part pe s. tag part = aixm ''VerticalStructurePart''
              \<and> find part (gml ''pos'') = Some pe \<and> text_of pe = Some s
              \<and> raw_geometry (wtgs ! i) = split s '' '')
          \<and> 2 \<le> length (raw_geometry (wtgs ! i))
          \<and> py_float E (raw_geometry (wtgs ! i) ! 0) = Some (Latitude (rows df ! i))
          \<and> py_float E (raw_geometry (wtgs ! i) ! 1) = Some (Longitude (rows df ! i))
          \<and> geometry (rows df ! i) = (Longitude (rows df ! i), Latitude (rows df ! i))
          \<and> Name (rows df ! i) = raw_Name (wtgs ! i)"
      using src g1 g0 fx fy by (simp add: row obstacle_row_def Let_def)
  qed
  with r(1) r(8) l show ?thesis by blast
qed

text \<open>
  Claim C8. In a returned frame the reference system is EPSG:4326, and row \<open>i\<close> comes
  from the \<open>i\<close>-th collected part: its raw position is the text of the part's
  \<^verbatim>\<open>pos\<close> element split at blanks, the first token converted is the latitude, the second
  token converted is the longitude, and the geometry is the point (longitude, latitude),
  so that \<^const>\<open>Longitude\<close> and \<^const>\<open>Latitude\<close> are its x and y.
\<close>

theorem parse_icao_lat_lon:
  "fromstring E d = Some tree \<and> parse_icao E (Some d) = Inr df \<longrightarrow>
     crs df = 4326
     \<and> (\<exists>wtgs. collect_wtgs tree = Inr wtgs \<and> length (rows df) = length wtgs
          \<and> (\<forall>i < length wtgs.
                (\<exists>part pe s. tag part = aixm ''VerticalStructurePart''
                    \<and> find part (gml ''pos'') = Some pe \<and> text_of pe = Some s
                    \<and> raw_geometry (wtgs ! i) = split s '' '')
                \<and> 2 \<le> length (raw_geometry (wtgs ! i))
                \<and> py_float E (raw_geometry (wtgs ! i) ! 0) = Some (Latitude (rows df ! i))
                \<and> py_float E (raw_geometry (wtgs ! i) ! 1) = Some (Longitude (rows df ! i))
                \<and> geometry (rows df ! i) = (Longitude (rows df ! i), Latitude (rows df ! i))
                \<and> Name (rows df ! i) = raw_Name (wtgs ! i)))"
  using parse_icao_position [of E d tree df] by blast

lemmas sample_xml_defs = sample_doc_def sample_doc_duplicate_def sample_doc_other_def
  sample_structure_def sample_part_def leaf_def aixm_def gml_def

lemmas collect_defs = collect_wtgs_def vertical_structure_def wtg_dict_def find_text_def find_def
  findall_def on_str_def valid_types_def clean_name_def

lemma sample_env_simps:
  "fromstring sample_env ''obstacles'' = Some sample_doc"
  "fromstring sample_env ''duplicate'' = Some sample_doc_duplicate"
  "fromstring sample_env ''other'' = Some sample_doc_other"
  "py_int sample_env = sample_int"
  "py_float sample_env = sample_decimal"
  "to_numeric sample_env = (\<lambda>s. map_option Some (sample_decimal s))"
  "to_datetime sample_env = sample_date"
  by (simp_all add: sample_env_def)

lemma sample_collect:
  "collect_wtgs sample_doc =
     Inr [sample_wtg ''VSP_1001'' [''48.125'', ''16.5''], sample_wtg ''VSP_1002'' [''48.25'', ''16.75'']]"
  by (simp add: collect_defs sample_xml_defs str_defs sample_wtg_def)

lemma sample_collect_duplicate:
  "collect_wtgs sample_doc_duplicate =
     Inr [sample_wtg ''VSP_1001_a'' [''48.125'', ''16.5''],
          sample_wtg ''VSP_1001_b'' [''48.25'', ''16.75'']]"
  by (simp add: collect_defs sample_xml_defs str_defs sample_wtg_def)

lemma sample_name_uid:
  "name_uid sample_env ''VSP_1001'' = Inr 1001"
  "name_uid sample_env ''VSP_1002'' = Inr 1002"
  "name_uid sample_env ''VSP_1001_a'' = Inr 1001"
  "name_uid sample_env ''VSP_1001_b'' = Inr 1001"
  by (simp_all add: name_uid_def sample_env_simps sample_parser_defs str_defs)

lemma sample_decimal_simps:
  "sample_decimal ''48.125'' = Some (385 / 8)"
  "sample_decimal ''16.5'' = Some (33 / 2)"
  "sample_decimal ''48.25'' = Some (193 / 4)"
  "sample_decimal ''16.75'' = Some (67 / 4)"
  "sample_decimal ''1.23'' = Some (123 / 100)"
  "sample_decimal ''n/a'' = None"
  by (simp_all add: sample_parser_defs str_defs)

lemma sample_parse:
  "\<exists>df. parse_icao sample_env (Some ''obstacles'') = Inr df
      \<and> map UID (rows df) = [1001, 1002]
      \<and> map Latitude (rows df) = [385 / 8, 193 / 4]
      \<and> map Longitude (rows df) = [33 / 2, 67 / 4]"
  by (simp add: parse_icao_def parse_icao_root_def sample_env_simps sample_collect derive_uids_def
      sample_name_uid sample_wtg_def str_defs getitem_def points_from_xy_def as_float_def
      sample_decimal_simps obstacle_row_def Let_def)

theorem parse_icao_lat_lon_witness:
  "\<exists>df. parse_icao sample_env (Some ''obstacles'') = Inr df
      \<and> crs df = 4326
      \<and> map Latitude (rows df) = [385 / 8, 193 / 4]
      \<and> map Longitude (rows df) = [33 / 2, 67 / 4]
      \<and> py_float sample_env ''48.125'' = Some (385 / 8)
      \<and> py_float sample_env ''16.5'' = Some (33 / 2)"
proof -
  from sample_parse obtain df where df: "parse_icao sample_env (Some ''obstacles'') = Inr df"
    "map Latitude (rows df) = [385 / 8, 193 / 4]" "map Longitude (rows df) = [33 / 2, 67 / 4]"
    by auto
  from parse_icao_lat_lon [of sample_env "''obstacles''" sample_doc df] df(1)
  have "crs df = 4326" by (simp add: sample_env_simps)
  with df show ?thesis by (auto simp: sample_env_simps sample_decimal_simps)
qed

theorem parse_icao_unique_uid_witness:
  "(\<exists>df. parse_icao sample_env (Some ''obstacles'') = Inr df
        \<and> map UID (rows df) = [1001, 1002] \<and> distinct (map UID (rows df)))
   \<and> parse_icao sample_env (Some ''duplicate'') = Inl AssertionError"
proof -
  from sample_parse obtain df where df: "parse_icao sample_env (Some ''obstacles'') = Inr df"
    "map UID (rows df) = [1001, 1002]" by auto
  let ?wtgs = "[sample_wtg ''VSP_1001_a'' [''48.125'', ''16.5''],
                sample_wtg ''VSP_1001_b'' [''48.25'', ''16.75'']]"
  have u: "derive_uids sample_env ?wtgs = Inr [1001, 1001]"
    by (simp add: derive_uids_def sample_name_uid sample_wtg_def str_defs)
  have x: "map_result (\<lambda>w. getitem (raw_geometry w) 1) ?wtgs = Inr [''16.5'', ''16.75'']"
    by (simp add: sample_wtg_def getitem_def)
  have y: "map_result (\<lambda>w. getitem (raw_geometry w) 0) ?wtgs = Inr [''48.125'', ''48.25'']"
    by (simp add: sample_wtg_def getitem_def)
  have p: "points_from_xy sample_env [''16.5'', ''16.75''] [''48.125'', ''48.25'']
      = Inr [(33 / 2, 385 / 8), (67 / 4, 193 / 4)]"
    by (simp add: points_from_xy_def as_float_def sample_env_simps sample_decimal_simps)
  have n: "name_uid sample_env (raw_Name (?wtgs ! 0)) = Inr 1001"
    "name_uid sample_env (raw_Name (?wtgs ! 1)) = Inr 1001"
    by (simp_all add: sample_wtg_def sample_name_uid)
  from parse_icao_unique_uid [of sample_env "Some ''obstacles''" df "''duplicate''"
      sample_doc_duplicate ?wtgs 0 1 1001 "[1001, 1001]" "[''16.5'', ''16.75'']"
      "[''48.125'', ''48.25'']" "[(33 / 2, 385 / 8), (67 / 4, 193 / 4)]"]
    df sample_env_simps(2) sample_collect_duplicate u x y p n
  show ?thesis by simp
qed

lemma vertical_structure_skipped:
  assumes "find s (aixm ''type'') = Some el" and "text_of el \<notin> Some ` set valid_types"
  shows "vertical_structure s = Inr []"
proof -
  have "\<not> (case text_of el of None \<Rightarrow> False | Some t \<Rightarrow> t \<in> set valid_types)"
    using assms(2) by (cases "text_of el") auto
  then show ?thesis
    using assms(1) by (simp add: vertical_structure_def find_text_def)
qed

lemma collect_wtgs_none:
  assumes "\<forall>s \<in> set (iter (aixm ''VerticalStructure'') tree).
             \<exists>el. find s (aixm ''type'') = Some el \<and> text_of el \<notin> Some ` set valid_types"
  shows "collect_wtgs tree = Inr []"
proof -
  have "\<forall>s \<in> set (iter (aixm ''VerticalStructure'') tree). vertical_structure s = Inr ((\<lambda>_. []) s)"
    using assms vertical_structure_skipped by blast
  then have "map_result vertical_structure (iter (aixm ''VerticalStructure'') tree)
      = Inr (map (\<lambda>_. []) (iter (aixm ''VerticalStructure'') tree))"
    by (rule map_result_all)
  then show ?thesis by (simp add: collect_wtgs_def)
qed

text \<open>
  Claim C10. When every \<^verbatim>\<open>VerticalStructure\<close> of the document has a type other than
  \<^verbatim>\<open>WINDMILL_FARMS\<close> and \<^verbatim>\<open>WINDMILL\<close>, no record is collected and the parser raises
  the \<^verbatim>\<open>KeyError\<close> of the missing \<^verbatim>\<open>Name\<close> column instead of returning an empty frame.
\<close>

theorem parse_icao_no_turbine:
  assumes "fromstring E data = Some tree"
    and "\<forall>s \<in> set (iter (aixm ''VerticalStructure'') tree).
           \<exists>el. find s (aixm ''type'') = Some el \<and> text_of el \<notin> Some ` set valid_types"
  shows "parse_icao E (Some data) = Inl (KeyError ''Name'')"
  using assms(1) collect_wtgs_none [OF assms(2)]
  by (simp add: parse_icao_def parse_icao_root_def derive_uids_def)

lemma iter_other: "iter (aixm ''VerticalStructure'') sample_doc_other =
    [sample_structure ''OTHER'' [sample_part ''VSP_7'' ''47.0 15.0''], sample_structure ''BUILDING'' []]"
  by (simp add: sample_doc_other_def sample_structure_def sample_part_def leaf_def aixm_def gml_def)

lemma find_type_sample: "find (sample_structure ty ps) (aixm ''type'') = Some (leaf (aixm ''type'') ty)"
  by (simp add: find_def findall_def sample_structure_def leaf_def aixm_def)

theorem parse_icao_no_turbine_witness:
  "fromstring sample_env ''other'' = Some sample_doc_other
   \<and> length (iter (aixm ''VerticalStructure'') sample_doc_other) = 2
   \<and> parse_icao sample_env (Some ''other'') = Inl (KeyError ''Name'')"
proof -
  have f: "fromstring sample_env ''other'' = Some sample_doc_other"
    by (simp add: sample_env_def)
  have t: "\<forall>s \<in> set (iter (aixm ''VerticalStructure'') sample_doc_other).
           \<exists>el. find s (aixm ''type'') = Some el \<and> text_of el \<notin> Some ` set valid_types"
    by (simp add: iter_other find_type_sample leaf_def valid_types_def)
  from parse_icao_no_turbine [OF f t] f show ?thesis by (simp add: iter_other)
qed

lemma sample_link_label:
  "link_label (base_url @ sample_href ''20250401'') = Inr (''20250401'', base_url @ sample_href ''20250401'')"
  "link_label (base_url @ sample_href ''20250301'') = Inr (''20250301'', base_url @ sample_href ''20250301'')"
  "link_label (base_url @ sample_href ''20250201'') = Inr (''20250201'', base_url @ sample_href ''20250201'')"
  "link_label (base_url @ sample_href ''20250101'') = Inr (''20250101'', base_url @ sample_href ''20250101'')"
  "link_label (base_url @ sample_href ''20241201'') = Inr (''20241201'', base_url @ sample_href ''20241201'')"
  by (simp_all add: link_label_def base_url_def sample_href_def str_defs getitem_def)

lemma sample_expected_name:
  "expected_name (base_url @ sample_href ''20250401'') = Inr ''LO_OBS_DS_AREA1_20250401.xml''"
  "expected_name (base_url @ sample_href ''20250301'') = Inr ''LO_OBS_DS_AREA1_20250301.xml''"
  "expected_name (base_url @ sample_href ''20250201'') = Inr ''LO_OBS_DS_AREA1_20250201.xml''"
  "expected_name (base_url @ sample_href ''20250101'') = Inr ''LO_OBS_DS_AREA1_20250101.xml''"
  "expected_name (base_url @ sample_href ''20241201'') = Inr ''LO_OBS_DS_AREA1_20241201.xml''"
  by (simp_all add: expected_name_def base_url_def sample_href_def str_defs getitem_def)

lemma sample_links:
  "get_austro_control_links sample_env =
     Inr [(''20250401'', base_url @ sample_href ''20250401''),
          (''20250301'', base_url @ sample_href ''20250301''),
          (''20250201'', base_url @ sample_href ''20250201''),
          (''20250101'', base_url @ sample_href ''20250101''),
          (''20241201'', base_url @ sample_href ''20241201'')]"
  by (simp add: get_austro_control_links_def sample_env_def sample_link_label)

lemma sample_requests:
  "requests_get sample_env (base_url @ sample_href ''20250401'') = Some \<lparr>status_code = 200, content = ''zip-one-xml''\<rparr>"
  "requests_get sample_env (base_url @ sample_href ''20250301'') = Some \<lparr>status_code = 200, content = ''zip-no-xml''\<rparr>"
  "requests_get sample_env (base_url @ sample_href ''20250201'') = Some \<lparr>status_code = 200, content = ''zip-two-xml''\<rparr>"
  "requests_get sample_env (base_url @ sample_href ''20250101'') = Some \<lparr>status_code = 404, content = ''not found''\<rparr>"
  "requests_get sample_env (base_url @ sample_href ''20241201'') = None"
  by (simp_all add: sample_env_def base_url_def sample_href_def catalog_url_def)

lemma sample_zip:
  "zip_members sample_env ''zip-one-xml'' = Some [(''readme.txt'', Some ''text''), (''obstacles.xml'', Some ''obstacles'')]"
  "zip_members sample_env ''zip-no-xml'' = Some [(''readme.txt'', Some ''text'')]"
  "zip_members sample_env ''zip-two-xml'' = Some [(''a.xml'', Some ''obstacles''), (''b.xml'', Some ''obstacles'')]"
  "zip_members sample_env ''not found'' = None"
  by (simp_all add: sample_env_def)

lemma sample_fetch:
  "fetch_archive sample_env (base_url @ sample_href ''20250301'') (Some f) fs = (None, fs)"
  "fetch_archive sample_env (base_url @ sample_href ''20250201'') (Some f) fs = (None, fs)"
  "fetch_archive sample_env (base_url @ sample_href ''20250101'') (Some f) fs = (None, fs)"
  "fetch_archive sample_env (base_url @ sample_href ''20241201'') (Some f) fs = (None, fs)"
  "fetch_archive sample_env (base_url @ sample_href ''20250401'') (Some f) fs = (Some ''obstacles'', fs(f \<mapsto> ''obstacles''))"
  by (simp_all add: fetch_archive_def sample_requests sample_zip endswith_def)

lemma fetch_archive_no_source:
  assumes "requests_get E url = None
    \<or> (\<exists>resp. requests_get E url = Some resp
          \<and> (zip_members E (content resp) = None
              \<or> (\<exists>members. zip_members E (content resp) = Some members
                    \<and> length (filter (\<lambda>n. endswith n ''.xml'') (map fst members)) \<noteq> 1)))"
  shows "fetch_archive E url filename fs = (None, fs)"
  using assms by (auto simp: fetch_archive_def Let_def split: option.splits)

text \<open>Whenever the \<^verbatim>\<open>try\<close> block ends without a source, it has written nothing.\<close>

lemma fetch_archive_unwritten:
  "fetch_archive E url filename fs = (None, fs') \<Longrightarrow> fs' = fs"
  by (auto simp: fetch_archive_def Let_def split: option.splits if_splits)

lemma get_austro_control_data_no_source:
  assumes "get_austro_control_links E = Inr urls"
    and "list_index < int (length urls)"
    and "getitem urls list_index = Inr (publication_date, url)"
    and "expected_name url = Inr name"
    and "case data_path of None \<Rightarrow> True | Some d \<Rightarrow> d \<in> set dirs"
    and "case data_path of None \<Rightarrow> True | Some d \<Rightarrow> fs (d @ ''/'' @ name) = None \<or> overwrite"
    and "fetch_archive E url (map_option (\<lambda>d. d @ ''/'' @ name) data_path) fs = (None, fs)"
  shows "get_austro_control_data E dirs data_path list_index overwrite fs = (Inl TypeError, fs)"
  using assms
  by (cases data_path) (auto simp: get_austro_control_data_def parse_icao_def Let_def)

text \<open>
  Claim C7, as the code has it. When the link list, the index, the file name and the
  cache directory are in order and the cache is not used, a fetch that fails, a
  malformed archive, and an archive without exactly one XML member all end the same way:
  the \<^verbatim>\<open>except\<close> clause swallows the error (also the \<^verbatim>\<open>RuntimeError\<close> the block
  raises itself), \<^const>\<open>parse_icao\<close> is called on \<^verbatim>\<open>None\<close>, and the call ends with that
  parser's \<^verbatim>\<open>TypeError\<close>. No file is written.
\<close>

theorem get_austro_control_data_failed_fetch:
  assumes "get_austro_control_links E = Inr urls"
    and "list_index < int (length urls)"
    and "getitem urls list_index = Inr (publication_date, url)"
    and "expected_name url = Inr name"
    and "case data_path of None \<Rightarrow> True | Some d \<Rightarrow> d \<in> set dirs"
    and "case data_path of None \<Rightarrow> True | Some d \<Rightarrow> fs (d @ ''/'' @ name) = None \<or> overwrite"
    and "requests_get E url = None
      \<or> (\<exists>resp. requests_get E url = Some resp
            \<and> (zip_members E (content resp) = None
                \<or> (\<exists>members. zip_members E (content resp) = Some members
                      \<and> length (filter (\<lambda>n. endswith n ''.xml'') (map fst members)) \<noteq> 1)))"
  shows "get_austro_control_data E dirs data_path list_index overwrite fs = (Inl TypeError, fs)"
  using assms(1-6) fetch_archive_no_source [OF assms(7)]
  by (rule get_austro_control_data_no_source)

lemma sample_runs:
  "get_austro_control_data sample_env [''data''] (Some ''data'') 1 False Map.empty = (Inl TypeError, Map.empty)"
  "get_austro_control_data sample_env [''data''] (Some ''data'') 2 False Map.empty = (Inl TypeError, Map.empty)"
  "get_austro_control_data sample_env [''data''] (Some ''data'') 3 False Map.empty = (Inl TypeError, Map.empty)"
  "get_austro_control_data sample_env [''data''] (Some ''data'') 4 False Map.empty = (Inl TypeError, Map.empty)"
  by (simp_all add: get_austro_control_data_def sample_links getitem_def sample_expected_name
      sample_fetch parse_icao_def)

lemma sample_cached_run:
  "fst (get_austro_control_data sample_env [''data''] (Some ''data'') 0 False Map.empty)
     = map_sum id (\<lambda>df. (\<lparr>columns = columns df @ [''PublicationDate''],
                            rows = map (\<lambda>r. (r, ''20250401'')) (rows df), crs = crs df\<rparr>,
                          Some ''data/LO_OBS_DS_AREA1_20250401.xml''))
         (parse_icao sample_env (Some ''obstacles''))"
  "snd (get_austro_control_data sample_env [''data''] (Some ''data'') 0 False Map.empty)
     = [''data/LO_OBS_DS_AREA1_20250401.xml'' \<mapsto> ''obstacles'']"
  by (simp_all add: get_austro_control_data_def sample_links getitem_def sample_expected_name
      sample_fetch split: sum.splits)

theorem get_austro_control_data_failed_fetch_witness:
  "get_austro_control_data sample_env [''data''] (Some ''data'') 1 False Map.empty
     = (Inl TypeError, Map.empty)
   \<and> get_austro_control_data sample_env [''data''] (Some ''data'') 2 False Map.empty
     = (Inl TypeError, Map.empty)
   \<and> get_austro_control_data sample_env [''data''] (Some ''data'') 3 False Map.empty
     = (Inl TypeError, Map.empty)
   \<and> get_austro_control_data sample_env [''data''] (Some ''data'') 4 False Map.empty
     = (Inl TypeError, Map.empty)"
proof -
  have i: "getitem [(''20250401'', base_url @ sample_href ''20250401''),
          (''20250301'', base_url @ sample_href ''20250301''),
          (''20250201'', base_url @ sample_href ''20250201''),
          (''20250101'', base_url @ sample_href ''20250101''),
          (''20241201'', base_url @ sample_href ''20241201'')] 1
      = Inr (''20250301'', base_url @ sample_href ''20250301'')"
    by (simp add: getitem_def)
  have "get_austro_control_data sample_env [''data''] (Some ''data'') 1 False Map.empty
     = (Inl TypeError, Map.empty)"
    by (rule get_austro_control_data_failed_fetch
        [OF sample_links _ i sample_expected_name(2)])
      (simp_all add: sample_requests sample_zip endswith_def)
  then show ?thesis by (simp add: sample_runs)
qed

end
